theory Spec2Isabelle
  imports Main "HOL-Library.AList"
begin

section \<open>BeatGuessr buzzer mode: the room state machine of backend/buzzer.py\<close>

text \<open>
  The module keeps two process-wide dictionaries, \<open>rooms\<close> (room code to room) and
  \<open>player_sessions\<close> (connection identity to room code), and registers one handler per
  inbound Socket.IO event. Each handler is embedded as a function from the identity of the
  calling connection (\<open>request.sid\<close>), the payload and the two dictionaries to the list of
  emitted events and the updated dictionaries. Python dictionaries iterate in insertion
  order, and the handlers depend on it (first match of the rejoin loop, first maximum of
  the winner search, stable sort of the player list), so \<open>room["players"]\<close> is an
  association list: \<open>map_of\<close> reads a key, \<open>AList.update\<close> stores one (in place when the
  key exists, at the end otherwise) and \<open>AList.delete\<close> removes one. A string is
  a \<open>char list\<close>, the bytes of the text in UTF-8; the handlers compare strings for
  equality, test them for emptiness and append to them, and all three mean the same on
  the bytes as on the text.
  The \<open>print\<close> calls, the unused \<open>time.time()\<close> and the transport's own group
  membership (\<open>join_room\<close>, \<open>leave_room\<close> of flask_socketio) are left out.
\<close>

subsection \<open>Strings\<close>

text \<open>
  The handlers call three methods of Python's string type: \<open>lower\<close> and \<open>upper\<close>, the
  case mappings of Unicode, and \<open>strip\<close>, which removes the white space at both ends.
  They belong to the language, not to this module, so the handlers that call them take
  them as a parameter, and every statement below about these handlers holds whatever the
  three functions are.
\<close>

record str_methods =
  lower :: "string \<Rightarrow> string"
  upper :: "string \<Rightarrow> string"
  strip :: "string \<Rightarrow> string"

subsection \<open>Data model\<close>

type_synonym sid = string

text \<open>A catalog entry, with the keys the scraping script writes for each song.\<close>

record song =
  song_id :: string
  title :: string
  artist :: string
  year :: int
  chart_context :: string
  preview_url :: string
  cover_url :: "string option"
  album :: string
  spotify_url :: string

text \<open>
  A player entry \<open>{"name", "score", "connected"}\<close>. Every entry is created with all three
  keys, so the default of \<open>player.get("connected", True)\<close> is never taken.
\<close>

record player =
  name :: string
  score :: int
  connected :: bool

record room =
  host_sid :: sid
  host_connected :: bool
  max_score :: int
  players :: "(sid \<times> player) list"
  current_song :: "song option"
  round_active :: bool
  buzz_queue :: "sid list"
  current_buzzer :: "sid option"
  locked_out :: "sid set"
  used_song_ids :: "string set"
  game_started :: bool
  game_ended :: bool
  winner :: "string option"

record gstate =
  rooms :: "string \<rightharpoonup> room"
  player_sessions :: "sid \<rightharpoonup> string"

text \<open>
  Python tests \<open>if room["current_buzzer"]:\<close> and \<open>if existing_sid:\<close> by truth value:
  \<open>None\<close> and the empty string both count as false. The model writes the two tests out,
  as a case on the option and a comparison with the empty string.
\<close>

subsection \<open>The state projection \<open>get_room_state\<close>\<close>

text \<open>
  The dictionary returned by \<open>get_room_state\<close>. The fields \<open>playersView\<close> and
  \<open>winnerView\<close> are its keys \<open>"players"\<close> and \<open>"winner"\<close>; \<open>currentSong = None\<close> means
  that the key \<open>"currentSong"\<close> is absent. An entry of the player list is
  \<open>{"id", "name", "score", "isLockedOut", "isConnected"}\<close>, an entry of the queue and the
  current buzzer are \<open>{"id", "name"}\<close>.
\<close>

record player_view =
  pv_id :: sid
  pv_name :: string
  pv_score :: int
  isLockedOut :: bool
  isConnected :: bool

record room_view =
  roomCode :: string
  maxScore :: int
  playersView :: "player_view list"
  roundActive :: bool
  currentBuzzer :: "(sid \<times> string) option"
  buzzQueue :: "(sid \<times> string) list"
  gameStarted :: bool
  gameEnded :: bool
  winnerView :: "string option"
  currentSong :: "song option"

definition players_list :: "room \<Rightarrow> player_view list" where
  "players_list room =
     sort_key (\<lambda>p. - pv_score p)
       (map (\<lambda>(sid, player).
               \<lparr>pv_id = sid, pv_name = name player, pv_score = score player,
                isLockedOut = (sid \<in> locked_out room), isConnected = connected player\<rparr>)
            (players room))"

definition room_view :: "string \<Rightarrow> room \<Rightarrow> bool \<Rightarrow> room_view" where
  "room_view room_code room for_host =
     \<lparr>roomCode = room_code,
      maxScore = max_score room,
      playersView = players_list room,
      roundActive = round_active room,
      currentBuzzer =
        (case current_buzzer room of
           None \<Rightarrow> None
         | Some b \<Rightarrow>
             if b = [] then None
             else (case map_of (players room) b of
                     None \<Rightarrow> None
                   | Some buzzer \<Rightarrow> Some (b, name buzzer))),
      buzzQueue =
        List.map_filter
          (\<lambda>sid. case map_of (players room) sid of
                    None \<Rightarrow> None
                  | Some player \<Rightarrow> Some (sid, name player))
          (buzz_queue room),
      gameStarted = game_started room,
      gameEnded = game_ended room,
      winnerView = winner room,
      currentSong = (if for_host then current_song room else None)\<rparr>"

definition get_room_state :: "(string \<rightharpoonup> room) \<Rightarrow> string \<Rightarrow> bool \<Rightarrow> room_view option" where
  "get_room_state rs room_code for_host =
     (case rs room_code of
        None \<Rightarrow> None
      | Some room \<Rightarrow> Some (room_view room_code room for_host))"

subsection \<open>Emitted events and handler results\<close>

text \<open>
  The error messages of the module, in the order of their first use: code and name
  required, room not found, game already ended, room full (at most 8 players), only the
  host can start the game, at least one player required, no songs available, host already
  connected.
\<close>

datatype error =
    Code_and_name_required
  | Room_not_found
  | Game_already_ended
  | Room_full
  | Only_host_can_start
  | One_player_required
  | No_songs_available
  | Host_already_connected

text \<open>
  \<open>emit(event, payload)\<close> answers the calling connection; \<open>emit(event, payload, room=g)\<close>
  addresses the transport group \<open>g\<close>, which is the room code for everybody in the room
  and the room code followed by \<open>_host\<close> for the host.
\<close>

datatype target = To_sender | To_group string

text \<open>
  The payload of \<open>judge_result\<close>. The keys \<open>roundEnded\<close>, \<open>gameEnded\<close>, \<open>lockedOut\<close> and
  \<open>allLockedOut\<close> are only ever set to \<open>True\<close>: the field says whether the key is
  present. \<open>jr_song = None\<close> and \<open>jr_winner = None\<close> mean that the key is absent.
\<close>

record judge_result =
  jr_playerId :: sid
  jr_playerName :: string
  jr_correctArtist :: bool
  jr_correctTitle :: bool
  jr_points :: int
  jr_roundEnded :: bool
  jr_song :: "song option option"
  jr_gameEnded :: bool
  jr_winner :: "string option"
  jr_lockedOut :: bool
  jr_allLockedOut :: bool

datatype song_payload = Full_song song | Preview_only string

datatype message =
    Error error
  | Host_disconnected
  | Room_state "room_view option"
  | Room_created string int
  | Joined_room string string bool
  | Player_joined string
  | Player_left string
  | Game_started
  | Round_started song_payload
  | Player_buzzed sid string nat
  | Judge_result judge_result
  | Round_skipped "song option"
  | Game_ended "string option" "player_view list"
  | Host_rejoined "room_view option"

type_synonym emit = "target \<times> message"

text \<open>
  A handler either returns, with the events it emitted, or raises; in both cases the
  dictionaries keep what the handler wrote before. No handler emits before a statement
  that can raise.
\<close>

datatype exn = ValueError | TypeError

datatype result = Done "emit list" gstate | Raised exn gstate

fun state_of :: "result \<Rightarrow> gstate" where
  "state_of (Done evs st) = st"
| "state_of (Raised e st) = st"

fun emitted :: "result \<Rightarrow> emit list" where
  "emitted (Done evs st) = evs"
| "emitted (Raised e st) = []"

text \<open>The pair of \<open>room_state\<close> events that follows every room-wide change.\<close>

definition room_state_emits :: "(string \<rightharpoonup> room) \<Rightarrow> string \<Rightarrow> emit list" where
  "room_state_emits rs room_code =
     [(To_group room_code, Room_state (get_room_state rs room_code False)),
      (To_group (room_code @ ''_host''), Room_state (get_room_state rs room_code True))]"

subsection \<open>Connection handlers\<close>

definition handle_connect :: "sid \<Rightarrow> gstate \<Rightarrow> result" where
  "handle_connect sid st = Done [] st"

definition handle_disconnect :: "sid \<Rightarrow> gstate \<Rightarrow> result" where
  "handle_disconnect sid st =
     (case player_sessions st sid of
        None \<Rightarrow> Done [] st
      | Some room_code \<Rightarrow>
          (let sessions = (player_sessions st)(sid := None) in
           case rooms st room_code of
             None \<Rightarrow> Done [] (st\<lparr>player_sessions := sessions\<rparr>)
           | Some room \<Rightarrow>
               if host_sid room = sid then
                 Done [(To_group room_code, Host_disconnected)]
                   \<lparr>rooms = (rooms st)(room_code \<mapsto> room\<lparr>host_connected := False\<rparr>),
                    player_sessions = sessions\<rparr>
               else
                 (case map_of (players room) sid of
                    None \<Rightarrow> Done [] (st\<lparr>player_sessions := sessions\<rparr>)
                  | Some p \<Rightarrow>
                      (let rs = (rooms st)(room_code \<mapsto>
                                  room\<lparr>players :=
                                    AList.update sid (p\<lparr>connected := False\<rparr>) (players room)\<rparr>)
                       in Done (room_state_emits rs room_code)
                            \<lparr>rooms = rs, player_sessions = sessions\<rparr>))))"

subsection \<open>Creating a room\<close>

text \<open>
  \<open>generate_room_code\<close> draws six random characters until the code is unused. The
  successive draws are an argument; \<open>None\<close> says that the loop has not returned within
  the draws given.
\<close>

fun generate_room_code :: "(string \<rightharpoonup> room) \<Rightarrow> string list \<Rightarrow> string option" where
  "generate_room_code rs [] = None"
| "generate_room_code rs (code # draws) =
     (if rs code = None then Some code else generate_room_code rs draws)"

definition new_room :: "sid \<Rightarrow> int \<Rightarrow> room" where
  "new_room sid ms =
     \<lparr>host_sid = sid, host_connected = True, max_score = ms, players = [],
      current_song = None, round_active = False, buzz_queue = [], current_buzzer = None,
      locked_out = {}, used_song_ids = {}, game_started = False, game_ended = False,
      winner = None\<rparr>"

definition handle_create_room :: "sid \<Rightarrow> int option \<Rightarrow> string list \<Rightarrow> gstate \<Rightarrow> result option" where
  "handle_create_room sid data_maxScore draws st =
     (let ms = (case data_maxScore of None \<Rightarrow> 10 | Some m \<Rightarrow> m) in
      case generate_room_code (rooms st) draws of
        None \<Rightarrow> None
      | Some room_code \<Rightarrow>
          Some (Done [(To_sender, Room_created room_code ms)]
                  \<lparr>rooms = (rooms st)(room_code \<mapsto> new_room sid ms),
                   player_sessions = (player_sessions st)(sid \<mapsto> room_code)\<rparr>))"

subsection \<open>Joining and leaving\<close>

text \<open>
  The rejoin loop of \<open>handle_join_room\<close>: the first entry, in the order of the
  dictionary, of a disconnected player whose name equals the joining name up to case.
\<close>

definition find_existing ::
  "str_methods \<Rightarrow> (sid \<times> player) list \<Rightarrow> string \<Rightarrow> (sid \<times> player) option" where
  "find_existing lib ps player_name =
     find (\<lambda>(psid, player).
             lower lib (name player) = lower lib player_name \<and> \<not> connected player) ps"

text \<open>
  The rejoin branch: the entry found moves from \<open>existing_sid\<close> to \<open>sid\<close>, connected
  again, and \<open>sid\<close> takes the place of \<open>existing_sid\<close> in the queue, as current buzzer
  and in the lockout set. \<open>player_data\<close> is the entry that \<open>pop(existing_sid)\<close> returns,
  the one the loop found.
\<close>

definition transfer_session :: "room \<Rightarrow> sid \<Rightarrow> player \<Rightarrow> sid \<Rightarrow> room" where
  "transfer_session room existing_sid player_data sid =
     room\<lparr>players :=
            AList.update sid (player_data\<lparr>connected := True\<rparr>)
              (AList.delete existing_sid (players room)),
          buzz_queue := map (\<lambda>x. if x = existing_sid then sid else x) (buzz_queue room),
          current_buzzer :=
            (if current_buzzer room = Some existing_sid then Some sid
             else current_buzzer room),
          locked_out :=
            (if existing_sid \<in> locked_out room
             then insert sid (locked_out room - {existing_sid})
             else locked_out room)\<rparr>"

text \<open>The new-player branch; \<open>None\<close> is its room-full error.\<close>

definition add_player :: "room \<Rightarrow> sid \<Rightarrow> string \<Rightarrow> room option" where
  "add_player room sid player_name =
     (if length (players room) \<ge> 8 then None
      else Some (room\<lparr>players :=
                   AList.update sid \<lparr>name = player_name, score = 0, connected = True\<rparr>
                     (players room)\<rparr>))"

definition handle_join_room ::
  "str_methods \<Rightarrow> sid \<Rightarrow> string option \<Rightarrow> string option \<Rightarrow> gstate \<Rightarrow> result" where
  "handle_join_room lib sid data_roomCode data_playerName st =
     (let room_code = upper lib (case data_roomCode of None \<Rightarrow> [] | Some c \<Rightarrow> c);
          player_name = strip lib (case data_playerName of None \<Rightarrow> [] | Some n \<Rightarrow> n)
      in
      if room_code = [] \<or> player_name = [] then
        Done [(To_sender, Error Code_and_name_required)] st
      else
        (case rooms st room_code of
           None \<Rightarrow> Done [(To_sender, Error Room_not_found)] st
         | Some room \<Rightarrow>
             if game_ended room then Done [(To_sender, Error Game_already_ended)] st
             else
               (case (case find_existing lib (players room) player_name of
                        None \<Rightarrow> add_player room sid player_name
                      | Some (existing_sid, player_data) \<Rightarrow>
                          if existing_sid = [] then add_player room sid player_name
                          else Some (transfer_session room existing_sid player_data sid)) of
                  None \<Rightarrow> Done [(To_sender, Error Room_full)] st
                | Some room' \<Rightarrow>
                    (let rs = (rooms st)(room_code \<mapsto> room') in
                     Done ([(To_sender, Joined_room room_code player_name (game_started room')),
                            (To_group room_code, Player_joined player_name)]
                           @ room_state_emits rs room_code)
                       \<lparr>rooms = rs,
                        player_sessions = (player_sessions st)(sid \<mapsto> room_code)\<rparr>))))"

definition handle_leave_room :: "sid \<Rightarrow> gstate \<Rightarrow> result" where
  "handle_leave_room sid st =
     (case player_sessions st sid of
        None \<Rightarrow> Done [] st
      | Some room_code \<Rightarrow>
          (case rooms st room_code of
             None \<Rightarrow> Done [] st
           | Some room \<Rightarrow>
               (case map_of (players room) sid of
                  None \<Rightarrow> Done [] st
                | Some p \<Rightarrow>
                    (let rs = (rooms st)(room_code \<mapsto>
                                room\<lparr>players := AList.delete sid (players room)\<rparr>)
                     in Done ((To_group room_code, Player_left (name p))
                              # room_state_emits rs room_code)
                          \<lparr>rooms = rs,
                           player_sessions = (player_sessions st)(sid := None)\<rparr>))))"

subsection \<open>Game and round control\<close>

definition handle_start_game :: "sid \<Rightarrow> gstate \<Rightarrow> result" where
  "handle_start_game sid st =
     (case player_sessions st sid of
        None \<Rightarrow> Done [] st
      | Some room_code \<Rightarrow>
          (case rooms st room_code of
             None \<Rightarrow> Done [(To_sender, Error Only_host_can_start)] st
           | Some room \<Rightarrow>
               if host_sid room \<noteq> sid then Done [(To_sender, Error Only_host_can_start)] st
               else if length (players room) < 1 then
                 Done [(To_sender, Error One_player_required)] st
               else
                 (let rs = (rooms st)(room_code \<mapsto> room\<lparr>game_started := True\<rparr>)
                  in Done ((To_group room_code, Game_started) # room_state_emits rs room_code)
                       (st\<lparr>rooms := rs\<rparr>))))"

text \<open>
  \<open>all_songs\<close> is \<open>songs_data.get("songs", [])\<close>, the catalog given when the handlers are
  registered. \<open>random.choice(available)\<close> returns the element at a random index below the
  length; the random number is the argument \<open>pick\<close>, reduced modulo the length.
\<close>

definition handle_start_round :: "song list \<Rightarrow> sid \<Rightarrow> nat \<Rightarrow> gstate \<Rightarrow> result" where
  "handle_start_round all_songs sid pick st =
     (case player_sessions st sid of
        None \<Rightarrow> Done [] st
      | Some room_code \<Rightarrow>
          (case rooms st room_code of
             None \<Rightarrow> Done [] st
           | Some room \<Rightarrow>
               if host_sid room \<noteq> sid then Done [] st
               else if game_ended room then Done [] st
               else
                 (let unused = filter (\<lambda>s. song_id s \<notin> used_song_ids room) all_songs;
                      used = (if unused = [] then {} else used_song_ids room);
                      available = (if unused = [] then all_songs else unused)
                  in
                  if available = [] then
                    Done [(To_sender, Error No_songs_available)]
                      (st\<lparr>rooms := (rooms st)(room_code \<mapsto> room\<lparr>used_song_ids := used\<rparr>)\<rparr>)
                  else
                    (let song = available ! (pick mod length available);
                         rs = (rooms st)(room_code \<mapsto>
                                room\<lparr>used_song_ids := insert (song_id song) used,
                                     current_song := Some song,
                                     round_active := True,
                                     buzz_queue := [],
                                     current_buzzer := None,
                                     locked_out := {}\<rparr>)
                     in Done ([(To_group (room_code @ ''_host''), Round_started (Full_song song)),
                               (To_group room_code,
                                Round_started (Preview_only (preview_url song)))]
                              @ room_state_emits rs room_code)
                          (st\<lparr>rooms := rs\<rparr>)))))"

definition handle_buzz :: "sid \<Rightarrow> gstate \<Rightarrow> result" where
  "handle_buzz sid st =
     (case player_sessions st sid of
        None \<Rightarrow> Done [] st
      | Some room_code \<Rightarrow>
          (case rooms st room_code of
             None \<Rightarrow> Done [] st
           | Some room \<Rightarrow>
               if \<not> round_active room then Done [] st
               else
                 (case map_of (players room) sid of
                    None \<Rightarrow> Done [] st
                  | Some p \<Rightarrow>
                      if sid \<in> set (buzz_queue room) \<or> sid \<in> locked_out room then Done [] st
                      else
                        (let queue = buzz_queue room @ [sid];
                             rs = (rooms st)(room_code \<mapsto>
                                    room\<lparr>buzz_queue := queue,
                                         current_buzzer :=
                                           (if current_buzzer room = None then Some sid
                                            else current_buzzer room)\<rparr>)
                         in Done ((To_group room_code, Player_buzzed sid (name p) (length queue))
                                  # room_state_emits rs room_code)
                              (st\<lparr>rooms := rs\<rparr>)))))"

subsection \<open>Judging\<close>

text \<open>
  \<open>data.get("correctArtist", False)\<close> and \<open>data.get("correctTitle", False)\<close>: an absent
  key counts as false. In the wrong-answer branch \<open>list.remove\<close> deletes the first
  occurrence and raises \<open>ValueError\<close> when there is none; the lockout set has been
  extended by then. \<open>connected_players\<close> is the list comprehension of that branch: the
  identities of the players marked connected.
\<close>

definition connected_players :: "room \<Rightarrow> sid list" where
  "connected_players room = map fst (filter (\<lambda>(psid, p). connected p) (players room))"

definition handle_judge :: "sid \<Rightarrow> bool option \<Rightarrow> bool option \<Rightarrow> gstate \<Rightarrow> result" where
  "handle_judge sid data_correctArtist data_correctTitle st =
     (case player_sessions st sid of
        None \<Rightarrow> Done [] st
      | Some room_code \<Rightarrow>
          (case rooms st room_code of
             None \<Rightarrow> Done [] st
           | Some room \<Rightarrow>
               if host_sid room \<noteq> sid then Done [] st
               else
                 (case current_buzzer room of
                    None \<Rightarrow> Done [] st
                  | Some buzzer_sid \<Rightarrow>
                      if buzzer_sid = [] then Done [] st
                      else
                        (let correct_artist =
                               (case data_correctArtist of None \<Rightarrow> False | Some b \<Rightarrow> b);
                             correct_title =
                               (case data_correctTitle of None \<Rightarrow> False | Some b \<Rightarrow> b);
                             points = (if correct_artist then 1 else 0)
                                    + (if correct_title then 1 else (0::int))
                         in
                         case map_of (players room) buzzer_sid of
                           None \<Rightarrow> Done [] st
                         | Some buzzer \<Rightarrow>
                             (let result =
                                    \<lparr>jr_playerId = buzzer_sid, jr_playerName = name buzzer,
                                     jr_correctArtist = correct_artist,
                                     jr_correctTitle = correct_title, jr_points = points,
                                     jr_roundEnded = False, jr_song = None,
                                     jr_gameEnded = False, jr_winner = None,
                                     jr_lockedOut = False, jr_allLockedOut = False\<rparr>
                              in
                              if points > 0 then
                                (let new_score = score buzzer + points;
                                     won = (new_score \<ge> max_score room);
                                     rs = (rooms st)(room_code \<mapsto>
                                            room\<lparr>players :=
                                                   AList.update buzzer_sid
                                                     (buzzer\<lparr>score := new_score\<rparr>) (players room),
                                                 round_active := False,
                                                 current_buzzer := None,
                                                 game_ended := (won \<or> game_ended room),
                                                 winner :=
                                                   (if won then Some (name buzzer)
                                                    else winner room)\<rparr>)
                                 in Done ((To_group room_code,
                                           Judge_result
                                             (result\<lparr>jr_roundEnded := True,
                                                     jr_song := Some (current_song room),
                                                     jr_gameEnded := won,
                                                     jr_winner :=
                                                       (if won then Some (name buzzer)
                                                        else None)\<rparr>))
                                          # room_state_emits rs room_code)
                                      (st\<lparr>rooms := rs\<rparr>))
                              else
                                (let locked = insert buzzer_sid (locked_out room) in
                                 if buzzer_sid \<notin> set (buzz_queue room) then
                                   Raised ValueError
                                     (st\<lparr>rooms := (rooms st)(room_code \<mapsto>
                                                      room\<lparr>locked_out := locked\<rparr>)\<rparr>)
                                 else
                                   (let queue = remove1 buzzer_sid (buzz_queue room);
                                        all_locked =
                                          (set (connected_players room) \<subseteq> locked);
                                        rs = (rooms st)(room_code \<mapsto>
                                               room\<lparr>locked_out := locked,
                                                    buzz_queue := queue,
                                                    current_buzzer :=
                                                      (case queue of [] \<Rightarrow> None
                                                       | x # _ \<Rightarrow> Some x),
                                                    round_active :=
                                                      (\<not> all_locked \<and> round_active room)\<rparr>)
                                    in Done ((To_group room_code,
                                              Judge_result
                                                (result\<lparr>jr_lockedOut := True,
                                                        jr_roundEnded := all_locked,
                                                        jr_allLockedOut := all_locked,
                                                        jr_song :=
                                                          (if all_locked
                                                           then Some (current_song room)
                                                           else None)\<rparr>))
                                             # room_state_emits rs room_code)
                                         (st\<lparr>rooms := rs\<rparr>))))))))"

definition handle_skip_round :: "sid \<Rightarrow> gstate \<Rightarrow> result" where
  "handle_skip_round sid st =
     (case player_sessions st sid of
        None \<Rightarrow> Done [] st
      | Some room_code \<Rightarrow>
          (case rooms st room_code of
             None \<Rightarrow> Done [] st
           | Some room \<Rightarrow>
               if host_sid room \<noteq> sid then Done [] st
               else
                 (let rs = (rooms st)(room_code \<mapsto>
                             room\<lparr>round_active := False, current_buzzer := None,
                                  buzz_queue := []\<rparr>)
                  in Done ((To_group room_code, Round_skipped (current_song room))
                           # room_state_emits rs room_code)
                       (st\<lparr>rooms := rs\<rparr>))))"

subsection \<open>Ending the game\<close>

text \<open>
  \<open>max(values, key=...)\<close> keeps the first of the entries with the highest score: a later
  entry replaces the best one so far only when its score is strictly greater.
\<close>

fun max_by_score :: "player \<Rightarrow> player list \<Rightarrow> player" where
  "max_by_score best [] = best"
| "max_by_score best (p # ps) = max_by_score (if score p > score best then p else best) ps"

text \<open>
  The payload reads \<open>get_room_state(room_code)["players"]\<close>; subscripting \<open>None\<close> would
  raise \<open>TypeError\<close>.
\<close>

definition handle_end_game :: "sid \<Rightarrow> gstate \<Rightarrow> result" where
  "handle_end_game sid st =
     (case player_sessions st sid of
        None \<Rightarrow> Done [] st
      | Some room_code \<Rightarrow>
          (case rooms st room_code of
             None \<Rightarrow> Done [] st
           | Some room \<Rightarrow>
               if host_sid room \<noteq> sid then Done [] st
               else
                 (let room' = room\<lparr>game_ended := True, round_active := False,
                                  winner :=
                                    (case map snd (players room) of
                                       [] \<Rightarrow> winner room
                                     | p # ps \<Rightarrow> Some (name (max_by_score p ps)))\<rparr>;
                      rs = (rooms st)(room_code \<mapsto> room')
                  in
                  case get_room_state rs room_code False of
                    None \<Rightarrow> Raised TypeError (st\<lparr>rooms := rs\<rparr>)
                  | Some v \<Rightarrow>
                      Done [(To_group room_code, Game_ended (winner room') (playersView v))]
                        (st\<lparr>rooms := rs\<rparr>))))"

subsection \<open>Host rejoin and state pull\<close>

definition handle_host_rejoin ::
  "str_methods \<Rightarrow> sid \<Rightarrow> string option \<Rightarrow> gstate \<Rightarrow> result" where
  "handle_host_rejoin lib sid data_roomCode st =
     (let room_code = upper lib (case data_roomCode of None \<Rightarrow> [] | Some c \<Rightarrow> c) in
      case rooms st room_code of
        None \<Rightarrow> Done [(To_sender, Error Room_not_found)] st
      | Some room \<Rightarrow>
          if \<not> host_connected room then
            (let rs = (rooms st)(room_code \<mapsto> room\<lparr>host_sid := sid, host_connected := True\<rparr>)
             in Done [(To_sender, Host_rejoined (get_room_state rs room_code True))]
                  \<lparr>rooms = rs, player_sessions = (player_sessions st)(sid \<mapsto> room_code)\<rparr>)
          else Done [(To_sender, Error Host_already_connected)] st)"

definition handle_get_room_state :: "sid \<Rightarrow> gstate \<Rightarrow> result" where
  "handle_get_room_state sid st =
     (case player_sessions st sid of
        None \<Rightarrow> Done [] st
      | Some room_code \<Rightarrow>
          (case rooms st room_code of
             None \<Rightarrow> Done [] st
           | Some room \<Rightarrow>
               if host_sid room = sid then
                 Done [(To_sender, Room_state (get_room_state (rooms st) room_code True))] st
               else
                 Done [(To_sender, Room_state (get_room_state (rooms st) room_code False))] st))"

subsection \<open>Event sequences\<close>

text \<open>
  One inbound event: the handler's name, the calling connection and the payload (with the
  random draws of the handlers that draw). The server handles one event at a time; an
  event whose handler raised leaves the dictionaries as the handler left them, and the
  next event is handled from there. An event whose handler does not return ends the run.
\<close>

datatype command =
    Connect sid
  | Disconnect sid
  | Create_room sid "int option" "string list"
  | Join_room sid "string option" "string option"
  | Leave_room sid
  | Start_game sid
  | Start_round sid nat
  | Buzz sid
  | Judge sid "bool option" "bool option"
  | Skip_round sid
  | End_game sid
  | Host_rejoin sid "string option"
  | Get_room_state sid

fun step :: "str_methods \<Rightarrow> song list \<Rightarrow> command \<Rightarrow> gstate \<Rightarrow> result option" where
  "step lib all_songs (Connect sid) st = Some (handle_connect sid st)"
| "step lib all_songs (Disconnect sid) st = Some (handle_disconnect sid st)"
| "step lib all_songs (Create_room sid ms draws) st = handle_create_room sid ms draws st"
| "step lib all_songs (Join_room sid c n) st = Some (handle_join_room lib sid c n st)"
| "step lib all_songs (Leave_room sid) st = Some (handle_leave_room sid st)"
| "step lib all_songs (Start_game sid) st = Some (handle_start_game sid st)"
| "step lib all_songs (Start_round sid pick) st =
     Some (handle_start_round all_songs sid pick st)"
| "step lib all_songs (Buzz sid) st = Some (handle_buzz sid st)"
| "step lib all_songs (Judge sid a t) st = Some (handle_judge sid a t st)"
| "step lib all_songs (Skip_round sid) st = Some (handle_skip_round sid st)"
| "step lib all_songs (End_game sid) st = Some (handle_end_game sid st)"
| "step lib all_songs (Host_rejoin sid c) st = Some (handle_host_rejoin lib sid c st)"
| "step lib all_songs (Get_room_state sid) st = Some (handle_get_room_state sid st)"

fun run :: "str_methods \<Rightarrow> song list \<Rightarrow> command list \<Rightarrow> gstate \<Rightarrow> gstate option" where
  "run lib all_songs [] st = Some st"
| "run lib all_songs (c # cs) st =
     (case step lib all_songs c st of
        None \<Rightarrow> None
      | Some r \<Rightarrow> run lib all_songs cs (state_of r))"

text \<open>The dictionaries when the module is loaded: \<open>rooms = {}\<close>, \<open>player_sessions = {}\<close>.\<close>

definition initial :: gstate where
  "initial = \<lparr>rooms = Map.empty, player_sessions = Map.empty\<rparr>"

subsection \<open>Example data\<close>

text \<open>
  The example states and runs below hold ASCII text only. On ASCII text Python's
  \<open>lower\<close> and \<open>upper\<close> change the 26 letters and nothing else, and \<open>strip\<close> removes
  the characters 9 to 13 and 28 to 32 from both ends; \<open>ascii_methods\<close> are these
  functions. They serve the examples and nothing else: no handler refers to them.
\<close>

definition ascii_lower :: "char \<Rightarrow> char" where
  "ascii_lower c =
     (case map_of (zip ''ABCDEFGHIJKLMNOPQRSTUVWXYZ'' ''abcdefghijklmnopqrstuvwxyz'') c of
        None \<Rightarrow> c
      | Some l \<Rightarrow> l)"

definition ascii_upper :: "char \<Rightarrow> char" where
  "ascii_upper c =
     (case map_of (zip ''abcdefghijklmnopqrstuvwxyz'' ''ABCDEFGHIJKLMNOPQRSTUVWXYZ'') c of
        None \<Rightarrow> c
      | Some u \<Rightarrow> u)"

definition ascii_space :: "char \<Rightarrow> bool" where
  "ascii_space c =
     (let n = (of_char c :: nat) in (9 \<le> n \<and> n \<le> 13) \<or> (28 \<le> n \<and> n \<le> 32))"

definition ascii_methods :: str_methods where
  "ascii_methods =
     \<lparr>lower = map ascii_lower,
      upper = map ascii_upper,
      strip = (\<lambda>s. rev (dropWhile ascii_space (rev (dropWhile ascii_space s))))\<rparr>"

text \<open>
  A room in the middle of a round: Alice and Cleo are connected, Bob buzzed first and lost
  his connection afterwards, Alice buzzed second.
\<close>

definition demo_song :: song where
  "demo_song =
     \<lparr>song_id = ''track1'', title = ''Title'', artist = ''Artist'', year = 1999,
      chart_context = ''Charts 1999'', preview_url = ''http://p/1'', cover_url = None,
      album = ''Album'', spotify_url = ''http://s/1''\<rparr>"

definition demo_room :: room where
  "demo_room =
     \<lparr>host_sid = ''host1'', host_connected = True, max_score = 10,
      players = [(''sidA'', \<lparr>name = ''Alice'', score = 3, connected = True\<rparr>),
                 (''sidB'', \<lparr>name = ''Bob'', score = 1, connected = False\<rparr>),
                 (''sidC'', \<lparr>name = ''Cleo'', score = 0, connected = True\<rparr>)],
      current_song = Some demo_song, round_active = True,
      buzz_queue = [''sidB'', ''sidA''], current_buzzer = Some ''sidB'',
      locked_out = {}, used_song_ids = {''track1''},
      game_started = True, game_ended = False, winner = None\<rparr>"

definition demo_state :: gstate where
  "demo_state =
     \<lparr>rooms = [''ROOM01'' \<mapsto> demo_room],
      player_sessions = [''host1'' \<mapsto> ''ROOM01'', ''sidA'' \<mapsto> ''ROOM01'',
                         ''sidC'' \<mapsto> ''ROOM01'']\<rparr>"

text \<open>The same room at the start of the round, and once Cleo and Alice have buzzed.\<close>

definition open_room :: room where
  "open_room = demo_room\<lparr>buzz_queue := [], current_buzzer := None\<rparr>"

definition open_state :: gstate where
  "open_state = demo_state\<lparr>rooms := [''ROOM01'' \<mapsto> open_room]\<rparr>"

definition answer_room :: room where
  "answer_room =
     demo_room\<lparr>buzz_queue := [''sidC'', ''sidA''], current_buzzer := Some ''sidC''\<rparr>"

definition answer_state :: gstate where
  "answer_state = demo_state\<lparr>rooms := [''ROOM01'' \<mapsto> answer_room]\<rparr>"

text \<open>A lobby with eight player entries, seven of them connected.\<close>

definition full_room :: room where
  "full_room =
     \<lparr>host_sid = ''host2'', host_connected = True, max_score = 10,
      players = [(''sid1'', \<lparr>name = ''Ann'', score = 0, connected = True\<rparr>),
                 (''sid2'', \<lparr>name = ''Ben'', score = 0, connected = True\<rparr>),
                 (''sid3'', \<lparr>name = ''Cal'', score = 0, connected = True\<rparr>),
                 (''sid4'', \<lparr>name = ''Dee'', score = 0, connected = True\<rparr>),
                 (''sid5'', \<lparr>name = ''Eve'', score = 0, connected = True\<rparr>),
                 (''sid6'', \<lparr>name = ''Fay'', score = 0, connected = True\<rparr>),
                 (''sid7'', \<lparr>name = ''Gus'', score = 0, connected = True\<rparr>),
                 (''sid8'', \<lparr>name = ''Hal'', score = 0, connected = False\<rparr>)],
      current_song = None, round_active = False,
      buzz_queue = [], current_buzzer = None,
      locked_out = {}, used_song_ids = {},
      game_started = False, game_ended = False, winner = None\<rparr>"

definition full_state :: gstate where
  "full_state =
     \<lparr>rooms = [''ROOM02'' \<mapsto> full_room],
      player_sessions = [''host2'' \<mapsto> ''ROOM02'']\<rparr>"

subsection \<open>Runs from the empty registry\<close>

text \<open>The room under a code after a run of events from the initial dictionaries.\<close>

definition room_after ::
  "str_methods \<Rightarrow> song list \<Rightarrow> command list \<Rightarrow> string \<Rightarrow> room option" where
  "room_after lib all_songs cmds code =
     (case run lib all_songs cmds initial of None \<Rightarrow> None | Some st \<Rightarrow> rooms st code)"






text \<open>
  Four games. In the first the host ends the game while Bob is the current buzzer and
  judges him afterwards. In the second Bob is locked out and disconnects, and Alice, the
  current buzzer, sends a second join under Bob's name. In the third Bob is locked out
  and disconnects, and a new connection joins under his name. In the fourth two players
  have joined as \<open>Bob\<close> and \<open>BOB\<close>; \<open>BOB\<close> has scored a point and buzzed again, and both
  have lost their connections.
\<close>

definition ended_game_events :: "command list" where
  "ended_game_events =
     [Create_room ''host1'' (Some 2) [''ROOM01''],
      Join_room ''sidA'' (Some ''room01'') (Some ''Alice''),
      Join_room ''sidB'' (Some ''room01'') (Some ''Bob''),
      Start_game ''host1'',
      Start_round ''host1'' 0,
      Buzz ''sidA'',
      Judge ''host1'' (Some True) (Some False),
      Start_round ''host1'' 0,
      Buzz ''sidB'',
      End_game ''host1'']"



definition two_ghosts_events :: "command list" where
  "two_ghosts_events =
     [Create_room ''host1'' None [''ROOM01''],
      Join_room ''sidB'' (Some ''room01'') (Some ''Bob''),
      Join_room ''sidX'' (Some ''room01'') (Some ''BOB''),
      Start_game ''host1'',
      Start_round ''host1'' 0,
      Buzz ''sidX'',
      Judge ''host1'' (Some True) (Some False),
      Start_round ''host1'' 0,
      Buzz ''sidX'',
      Disconnect ''sidB'',
      Disconnect ''sidX'']"

section \<open>Verified properties\<close>

subsection \<open>The player view hides the song\<close>

text \<open>
  Claim C4. For every registry and room code, the player view (\<open>for_host = False\<close>) has no
  \<open>currentSong\<close> key, the host view carries exactly the room's current song when one is
  set, and the player view of a room does not depend on the room's current song: two
  rooms that differ only in \<open>current_song\<close> have the same player view.
\<close>

theorem player_view_hides_current_song:
  "map_option currentSong (get_room_state rs code False) = map_option (\<lambda>room. None) (rs code)
   \<and> map_option currentSong (get_room_state rs code True) = map_option current_song (rs code)
   \<and> get_room_state (rs(code \<mapsto> room\<lparr>current_song := s\<rparr>)) code False
       = get_room_state (rs(code \<mapsto> room)) code False"
  by (simp add: get_room_state_def room_view_def players_list_def split: option.splits)

theorem player_view_hides_current_song_witness:
  "map_option currentSong (get_room_state (rooms demo_state) ''ROOM01'' False) = Some None
   \<and> map_option currentSong (get_room_state (rooms demo_state) ''ROOM01'' True)
       = Some (Some demo_song)"
  using player_view_hides_current_song [of "rooms demo_state" "''ROOM01''"]
  by (simp add: demo_state_def demo_room_def)

subsection \<open>Ignored buzzes\<close>

text \<open>
  Claim C8. A buzz by a connection attached to a room changes nothing and emits nothing
  when the connection is already in the buzz queue, or is locked out, or no round is
  active, or the connection is not among the room's players; the same holds for a
  connection attached to no room or to a code without room. Whatever the state, a second
  buzz by the same connection right after the first changes nothing and emits nothing, so
  buzzing twice gives the state of buzzing once.
\<close>

theorem buzz_idempotent_safe:
  "(player_sessions st sid = Some code \<and> rooms st code = Some room
      \<and> (sid \<in> set (buzz_queue room) \<or> sid \<in> locked_out room \<or> \<not> round_active room
           \<or> map_of (players room) sid = None)
      \<longrightarrow> handle_buzz sid st = Done [] st)
   \<and> (player_sessions st sid = None \<or> player_sessions st sid = Some code \<and> rooms st code = None
      \<longrightarrow> handle_buzz sid st = Done [] st)
   \<and> handle_buzz sid (state_of (handle_buzz sid st)) = Done [] (state_of (handle_buzz sid st))"
  by (auto simp add: handle_buzz_def Let_def split: option.splits)

theorem buzz_idempotent_safe_witness:
  "handle_buzz ''sidA'' demo_state = Done [] demo_state
   \<and> map_option buzz_queue (rooms (state_of (handle_buzz ''sidC'' demo_state)) ''ROOM01'')
       = Some [''sidB'', ''sidA'', ''sidC'']
   \<and> handle_buzz ''sidC'' (state_of (handle_buzz ''sidC'' demo_state))
       = Done [] (state_of (handle_buzz ''sidC'' demo_state))"
proof -
  have a: "player_sessions demo_state ''sidA'' = Some ''ROOM01''"
    and r: "rooms demo_state ''ROOM01'' = Some demo_room"
    and q: "''sidA'' \<in> set (buzz_queue demo_room)"
    by (simp_all add: demo_state_def demo_room_def)
  have c: "map_option buzz_queue (rooms (state_of (handle_buzz ''sidC'' demo_state)) ''ROOM01'')
       = Some [''sidB'', ''sidA'', ''sidC'']"
    by (simp add: handle_buzz_def demo_state_def demo_room_def Let_def)
  show ?thesis
    using buzz_idempotent_safe [of demo_state "''sidA''" "''ROOM01''" demo_room]
      buzz_idempotent_safe [of demo_state "''sidC''"] a r q c
    by blast
qed

subsection \<open>Buzz order\<close>

lemma handle_buzz_accepted:
  assumes "player_sessions st s = Some code" "rooms st code = Some room" "round_active room"
    "map_of (players room) s \<noteq> None" "s \<notin> set (buzz_queue room)" "s \<notin> locked_out room"
  shows "state_of (handle_buzz s st) =
           st\<lparr>rooms := (rooms st)(code \<mapsto>
                 room\<lparr>buzz_queue := buzz_queue room @ [s],
                      current_buzzer := (if current_buzzer room = None then Some s
                                         else current_buzzer room)\<rparr>)\<rparr>"
  using assms by (auto simp add: handle_buzz_def Let_def split: option.splits)

text \<open>
  Claim C2. Buzzes applied one after the other to a room with an active round, by distinct
  connections that are attached to the room, are among its players, are not locked out and
  are not yet queued, extend the buzz queue by exactly these connections in the order of
  the calls and change nothing else in the room, except that the first of them becomes the
  current buzzer when there was none.
\<close>

theorem buzz_queue_order:
  assumes "rooms st code = Some room" and "round_active room" and "distinct sids"
    and "\<forall>s \<in> set sids. player_sessions st s = Some code \<and> map_of (players room) s \<noteq> None
           \<and> s \<notin> locked_out room \<and> s \<notin> set (buzz_queue room)"
  shows "rooms (foldl (\<lambda>st s. state_of (handle_buzz s st)) st sids) code =
           Some (room\<lparr>buzz_queue := buzz_queue room @ sids,
                      current_buzzer :=
                        (case current_buzzer room of
                           None \<Rightarrow> (case sids of [] \<Rightarrow> None | s # _ \<Rightarrow> Some s)
                         | Some b \<Rightarrow> Some b)\<rparr>)"
  using assms
proof (induction sids arbitrary: st room)
  case Nil
  then show ?case by (simp split: option.splits)
next
  case (Cons s sids)
  let ?room1 = "room\<lparr>buzz_queue := buzz_queue room @ [s],
                      current_buzzer := (if current_buzzer room = None then Some s
                                         else current_buzzer room)\<rparr>"
  let ?st1 = "st\<lparr>rooms := (rooms st)(code \<mapsto> ?room1)\<rparr>"
  have s1: "state_of (handle_buzz s st) = ?st1"
    using Cons.prems by (intro handle_buzz_accepted) auto
  have "rooms (foldl (\<lambda>st s. state_of (handle_buzz s st)) ?st1 sids) code =
           Some (?room1\<lparr>buzz_queue := buzz_queue ?room1 @ sids,
                      current_buzzer :=
                        (case current_buzzer ?room1 of
                           None \<Rightarrow> (case sids of [] \<Rightarrow> None | s # _ \<Rightarrow> Some s)
                         | Some b \<Rightarrow> Some b)\<rparr>)"
    using Cons.prems by (intro Cons.IH) auto
  then show ?case
    by (simp add: s1 split: option.splits)
qed

theorem buzz_queue_order_witness:
  "rooms (foldl (\<lambda>st s. state_of (handle_buzz s st)) open_state [''sidC'', ''sidA'']) ''ROOM01''
     = Some answer_room"
proof -
  have "rooms open_state ''ROOM01'' = Some open_room" "round_active open_room"
    "distinct [''sidC'', ''sidA'']"
    "\<forall>s \<in> set [''sidC'', ''sidA''].
        player_sessions open_state s = Some ''ROOM01'' \<and> map_of (players open_room) s \<noteq> None
        \<and> s \<notin> locked_out open_room \<and> s \<notin> set (buzz_queue open_room)"
    by (simp_all add: open_state_def open_room_def demo_state_def demo_room_def)
  from buzz_queue_order [OF this]
  show ?thesis
    by (simp add: open_room_def answer_room_def)
qed

subsection \<open>A wrong answer\<close>

lemma connected_subset_iff:
  "(set (connected_players room) \<subseteq> L)
     = (\<forall>(s, p) \<in> set (players room). connected p \<longrightarrow> s \<in> L)"
  by (auto simp add: connected_players_def)

lemma remove1_head: "b \<in> set q \<Longrightarrow> hd q = b \<Longrightarrow> remove1 b q = tl q"
  by (cases q) auto

text \<open>
  Claim C5. Let the host of a room judge with no flag true (absent flags count as false)
  while the room has a current buzzer, a non-empty identity with a player entry that
  stands in the buzz queue. Then the handler returns and the room changes in exactly four
  fields: the buzzer joins the lockout set, its first occurrence leaves the queue (the
  head, when it is the head: the queue becomes its tail), the current buzzer becomes the
  head of the remaining queue or none, and the round is closed when every connected
  player is locked out by now and keeps its state otherwise. The players, hence all
  scores, are unchanged.
\<close>

theorem judge_wrong_locks_out:
  assumes "player_sessions st h = Some code" and "rooms st code = Some room"
    and "host_sid room = h"
    and "current_buzzer room = Some b" and "b \<noteq> []"
    and "map_of (players room) b \<noteq> None"
    and "b \<in> set (buzz_queue room)"
    and "a \<noteq> Some True" and "t \<noteq> Some True"
  shows "(\<exists>evs. handle_judge h a t st =
           Done evs
             (st\<lparr>rooms := (rooms st)(code \<mapsto>
                   room\<lparr>locked_out := insert b (locked_out room),
                        buzz_queue := remove1 b (buzz_queue room),
                        current_buzzer :=
                          (case remove1 b (buzz_queue room) of [] \<Rightarrow> None | x # _ \<Rightarrow> Some x),
                        round_active :=
                          (if \<forall>(s, p) \<in> set (players room).
                                connected p \<longrightarrow> s \<in> insert b (locked_out room)
                           then False else round_active room)\<rparr>)\<rparr>))
         \<and> (hd (buzz_queue room) = b \<longrightarrow> remove1 b (buzz_queue room) = tl (buzz_queue room))"
proof -
  from assms(8,9) have flags: "(case a of None \<Rightarrow> False | Some x \<Rightarrow> x) = False"
    "(case t of None \<Rightarrow> False | Some x \<Rightarrow> x) = False"
    by (auto split: option.splits)
  from assms(6) obtain p where p: "map_of (players room) b = Some p"
    by auto
  have "\<exists>evs. handle_judge h a t st =
           Done evs
             (st\<lparr>rooms := (rooms st)(code \<mapsto>
                   room\<lparr>locked_out := insert b (locked_out room),
                        buzz_queue := remove1 b (buzz_queue room),
                        current_buzzer :=
                          (case remove1 b (buzz_queue room) of [] \<Rightarrow> None | x # _ \<Rightarrow> Some x),
                        round_active :=
                          (if \<forall>(s, p) \<in> set (players room).
                                connected p \<longrightarrow> s \<in> insert b (locked_out room)
                           then False else round_active room)\<rparr>)\<rparr>)"
    using assms(1-5,7) p
    by (simp add: handle_judge_def Let_def flags connected_subset_iff)
  then show ?thesis using assms(7) by (simp add: remove1_head)
qed

theorem judge_wrong_locks_out_witness:
  "map_option (\<lambda>r. (players r = players demo_room, locked_out r, buzz_queue r, current_buzzer r,
                     round_active r))
     (rooms (state_of (handle_judge ''host1'' (Some False) None demo_state)) ''ROOM01'')
   = Some (True, {''sidB''}, [''sidA''], Some ''sidA'', True)"
proof -
  have "player_sessions demo_state ''host1'' = Some ''ROOM01''"
    "rooms demo_state ''ROOM01'' = Some demo_room" "host_sid demo_room = ''host1''"
    "current_buzzer demo_room = Some ''sidB''" "''sidB'' \<noteq> []"
    "map_of (players demo_room) ''sidB'' \<noteq> None" "''sidB'' \<in> set (buzz_queue demo_room)"
    "Some False \<noteq> Some True" "None \<noteq> Some True"
    by (simp_all add: demo_state_def demo_room_def)
  from judge_wrong_locks_out [OF this]
  show ?thesis
    by (auto simp add: demo_state_def demo_room_def)
qed

subsection \<open>Judging after the buzzer has left\<close>

lemma handle_judge_other_rooms:
  "player_sessions st h \<noteq> Some code \<Longrightarrow>
     rooms (state_of (handle_judge h a t st)) code = rooms st code"
  by (simp add: handle_judge_def Let_def split: option.splits)

text \<open>
  Claim C10. When the current buzzer of a room, attached to it and among its players,
  leaves, the room loses the buzzer's player entry and nothing else: the identity stays
  in the buzz queue and stays the current buzzer. A judge event after that, from a
  connection attached to the room (the host is one) and with any flags, changes nothing
  and emits nothing; from any connection at all it leaves the room as it is.
\<close>

theorem leave_keeps_buzzer_and_blocks_judge:
  assumes "player_sessions st b = Some code" and "rooms st code = Some room"
    and "current_buzzer room = Some b" and "map_of (players room) b \<noteq> None"
  shows "rooms (state_of (handle_leave_room b st)) code
           = Some (room\<lparr>players := AList.delete b (players room)\<rparr>)
         \<and> (player_sessions (state_of (handle_leave_room b st)) h = Some code
              \<longrightarrow> handle_judge h a t (state_of (handle_leave_room b st))
                    = Done [] (state_of (handle_leave_room b st)))
         \<and> rooms (state_of (handle_judge h a t (state_of (handle_leave_room b st)))) code
           = rooms (state_of (handle_leave_room b st)) code"
proof -
  from assms(4) obtain p where p: "map_of (players room) b = Some p"
    by auto
  let ?room1 = "room\<lparr>players := AList.delete b (players room)\<rparr>"
  let ?st1 = "\<lparr>rooms = (rooms st)(code \<mapsto> ?room1),
               player_sessions = (player_sessions st)(b := None)\<rparr>"
  have st1: "state_of (handle_leave_room b st) = ?st1"
    using assms(1,2) p by (simp add: handle_leave_room_def Let_def)
  have gone: "map_of (players ?room1) b = None"
    by (simp add: AList.delete_conv')
  have j1: "player_sessions ?st1 h = Some code \<Longrightarrow> handle_judge h a t ?st1 = Done [] ?st1"
    using assms(3) gone by (simp add: handle_judge_def Let_def split: option.splits)
  have j2: "rooms (state_of (handle_judge h a t ?st1)) code = rooms ?st1 code"
  proof (cases "player_sessions ?st1 h = Some code")
    case True
    then show ?thesis using j1 by simp
  next
    case False
    then show ?thesis
      by (rule handle_judge_other_rooms)
  qed
  show ?thesis
    using j1 j2 by (simp add: st1)
qed

theorem leave_keeps_buzzer_and_blocks_judge_witness:
  "map_option (\<lambda>r. (map fst (players r), buzz_queue r, current_buzzer r))
     (rooms (state_of (handle_leave_room ''sidC'' answer_state)) ''ROOM01'')
     = Some ([''sidA'', ''sidB''], [''sidC'', ''sidA''], Some ''sidC'')
   \<and> handle_judge ''host1'' (Some True) (Some True)
         (state_of (handle_leave_room ''sidC'' answer_state))
       = Done [] (state_of (handle_leave_room ''sidC'' answer_state))"
proof -
  have "player_sessions answer_state ''sidC'' = Some ''ROOM01''"
    "rooms answer_state ''ROOM01'' = Some answer_room"
    "current_buzzer answer_room = Some ''sidC''"
    "map_of (players answer_room) ''sidC'' \<noteq> None"
    by (simp_all add: answer_state_def answer_room_def demo_state_def demo_room_def)
  from leave_keeps_buzzer_and_blocks_judge
         [OF this, of "''host1''" "Some True" "Some True"]
  have "handle_judge ''host1'' (Some True) (Some True)
          (state_of (handle_leave_room ''sidC'' answer_state))
        = Done [] (state_of (handle_leave_room ''sidC'' answer_state))"
    by (simp add: handle_leave_room_def answer_state_def answer_room_def demo_state_def
          demo_room_def Let_def)
  moreover have "map_option (\<lambda>r. (map fst (players r), buzz_queue r, current_buzzer r))
     (rooms (state_of (handle_leave_room ''sidC'' answer_state)) ''ROOM01'')
     = Some ([''sidA'', ''sidB''], [''sidC'', ''sidA''], Some ''sidC'')"
    by (simp add: handle_leave_room_def answer_state_def answer_room_def demo_state_def
          demo_room_def Let_def)
  ultimately show ?thesis by simp
qed

subsection \<open>Starting a round\<close>

text \<open>
  Claim C7. Let the host of a room whose game has not ended start a round. The handler
  answers with the no-songs error exactly when the catalog is empty. With a non-empty
  catalog it draws a song of the catalog, an unused one unless every song of the catalog
  is used; the room gets this song as current song, an active round, an empty buzz queue,
  no current buzzer and an empty lockout set, and the song's identifier is added to the
  used identifiers, which are cleared first when every song of the catalog was used.
\<close>

theorem start_round_draws_or_resets:
  assumes "player_sessions st h = Some code" and "rooms st code = Some room"
    and "host_sid room = h" and "\<not> game_ended room"
  shows "((emitted (handle_start_round all_songs h pick st)
            = [(To_sender, Error No_songs_available)]) = (all_songs = []))
         \<and> (all_songs \<noteq> [] \<longrightarrow>
              (\<exists>song \<in> set all_songs.
                 (song_id song \<in> used_song_ids room
                    \<longrightarrow> (\<forall>s \<in> set all_songs. song_id s \<in> used_song_ids room))
                 \<and> rooms (state_of (handle_start_round all_songs h pick st)) code =
                     Some (room\<lparr>used_song_ids :=
                                  insert (song_id song)
                                    (if \<forall>s \<in> set all_songs. song_id s \<in> used_song_ids room
                                     then {} else used_song_ids room),
                                current_song := Some song,
                                round_active := True,
                                buzz_queue := [],
                                current_buzzer := None,
                                locked_out := {}\<rparr>)))"
proof -
  let ?unused = "filter (\<lambda>s. song_id s \<notin> used_song_ids room) all_songs"
  let ?available = "if ?unused = [] then all_songs else ?unused"
  let ?song = "?available ! (pick mod length ?available)"
  have ex: "(?unused = []) = (\<forall>s \<in> set all_songs. song_id s \<in> used_song_ids room)"
    by (auto simp add: filter_empty_conv)
  have err: "(emitted (handle_start_round all_songs h pick st)
                = [(To_sender, Error No_songs_available)]) = (all_songs = [])"
    using assms
    by (auto simp add: handle_start_round_def Let_def room_state_emits_def)
  have ok: "\<exists>song \<in> set all_songs.
                 (song_id song \<in> used_song_ids room
                    \<longrightarrow> (\<forall>s \<in> set all_songs. song_id s \<in> used_song_ids room))
                 \<and> rooms (state_of (handle_start_round all_songs h pick st)) code =
                     Some (room\<lparr>used_song_ids :=
                                  insert (song_id song)
                                    (if \<forall>s \<in> set all_songs. song_id s \<in> used_song_ids room
                                     then {} else used_song_ids room),
                                current_song := Some song,
                                round_active := True,
                                buzz_queue := [],
                                current_buzzer := None,
                                locked_out := {}\<rparr>)"
    if ne: "all_songs \<noteq> []"
  proof -
    have ane: "?available \<noteq> []" using ne by simp
    then have mem: "?song \<in> set ?available"
      by (intro nth_mem) (simp del: filter.simps)
    have mem_all: "?song \<in> set all_songs"
      using mem by (auto split: if_splits)
    have fresh: "?unused \<noteq> [] \<Longrightarrow> song_id ?song \<notin> used_song_ids room"
      using mem by (auto split: if_splits)
    have res: "rooms (state_of (handle_start_round all_songs h pick st)) code =
                 Some (room\<lparr>used_song_ids :=
                              insert (song_id ?song)
                                (if ?unused = [] then {} else used_song_ids room),
                            current_song := Some ?song,
                            round_active := True,
                            buzz_queue := [],
                            current_buzzer := None,
                            locked_out := {}\<rparr>)"
      using assms ane
      by (simp add: handle_start_round_def Let_def del: filter.simps)
    show ?thesis
      using mem_all fresh res unfolding ex [symmetric]
      by (intro bexI [of _ ?song]) auto
  qed
  show ?thesis
    using err ok by blast
qed

theorem start_round_draws_or_resets_witness:
  "rooms (state_of (handle_start_round [demo_song] ''host1'' 5 demo_state)) ''ROOM01''
     = Some (demo_room\<lparr>used_song_ids := {''track1''}, current_song := Some demo_song,
                       round_active := True, buzz_queue := [], current_buzzer := None,
                       locked_out := {}\<rparr>)
   \<and> emitted (handle_start_round [] ''host1'' 5 demo_state)
       = [(To_sender, Error No_songs_available)]"
proof -
  have h: "player_sessions demo_state ''host1'' = Some ''ROOM01''"
    "rooms demo_state ''ROOM01'' = Some demo_room" "host_sid demo_room = ''host1''"
    "\<not> game_ended demo_room"
    by (simp_all add: demo_state_def demo_room_def)
  have u: "used_song_ids demo_room = {''track1''}" "song_id demo_song = ''track1''"
    by (simp_all add: demo_room_def demo_song_def)
  show ?thesis
    using start_round_draws_or_resets [OF h, of "[demo_song]" 5]
      start_round_draws_or_resets [OF h, of "[]" 5] u
    by simp
qed

subsection \<open>The rejoin loop\<close>

lemma find_existing_None:
  "(find_existing lib ps n = None)
     = (\<forall>(s, p) \<in> set ps. \<not> (lower lib (name p) = lower lib n \<and> \<not> connected p))"
  unfolding find_existing_def by (auto simp add: find_None_iff)

lemma find_first:
  assumes "P x" and "\<forall>y \<in> set before. \<not> P y"
  shows "find P (before @ x # rest) = Some x"
  using assms by (induction before) auto

lemma find_existing_first:
  assumes "ps = before @ (old, pd) # rest"
    and "lower lib (name pd) = lower lib n" and "\<not> connected pd"
    and "\<forall>(s, p) \<in> set before. \<not> (lower lib (name p) = lower lib n \<and> \<not> connected p)"
  shows "find_existing lib ps n = Some (old, pd)"
  unfolding find_existing_def assms(1)
  using assms(2,3,4) by (intro find_first) auto

subsection \<open>A full room\<close>

text \<open>
  Claim C6 does not hold as stated: the handler compares the number of player entries,
  disconnected ones included, with 8. In the lobby \<open>full_room\<close> seven players are
  connected, the joining name matches no disconnected player, and the join is rejected
  as room full.
\<close>

theorem join_room_full_counterexample:
  "find_existing ascii_methods (players full_room) (strip ascii_methods ''Ida'') = None
   \<and> length (connected_players full_room) = 7
   \<and> handle_join_room ascii_methods ''sid9'' (Some ''room02'') (Some ''Ida'') full_state
       = Done [(To_sender, Error Room_full)] full_state
   \<and> \<not> ((handle_join_room ascii_methods ''sid9'' (Some ''room02'') (Some ''Ida'') full_state
             = Done [(To_sender, Error Room_full)] full_state)
          = (8 \<le> length (connected_players full_room)))"
  by (simp add: full_state_def full_room_def handle_join_room_def find_existing_def
        add_player_def connected_players_def ascii_methods_def ascii_lower_def
        ascii_upper_def ascii_space_def Let_def)

text \<open>
  Claim C6, amended. Take a join with a room code that is not empty in upper case and a
  name that is not empty once stripped, to a room that exists, whatever the three string
  methods compute. When the game has not ended and no disconnected player's name equals
  the joining name up to case, the join is answered with the room-full error, and leaves
  the state as it is, exactly when the room has at least 8 player entries, connected or
  not. When the game has ended, the join is answered with the game-already-ended error
  and leaves the state as it is.
\<close>

theorem join_room_full_iff:
  assumes "rooms st (upper lib c) = Some room" and "upper lib c \<noteq> []"
    and "strip lib n \<noteq> []"
  shows "(\<not> game_ended room
            \<and> (\<forall>(s, p) \<in> set (players room).
                  \<not> (lower lib (name p) = lower lib (strip lib n) \<and> \<not> connected p))
          \<longrightarrow> (handle_join_room lib sid (Some c) (Some n) st
                 = Done [(To_sender, Error Room_full)] st)
              = (8 \<le> length (players room)))
         \<and> (game_ended room \<longrightarrow>
              handle_join_room lib sid (Some c) (Some n) st
                = Done [(To_sender, Error Game_already_ended)] st)"
proof -
  have "(handle_join_room lib sid (Some c) (Some n) st
           = Done [(To_sender, Error Room_full)] st)
        = (8 \<le> length (players room))"
    if "\<not> game_ended room" and "find_existing lib (players room) (strip lib n) = None"
    using assms that by (simp add: handle_join_room_def add_player_def Let_def)
  moreover have "handle_join_room lib sid (Some c) (Some n) st
                   = Done [(To_sender, Error Game_already_ended)] st"
    if "game_ended room"
    using assms that by (simp add: handle_join_room_def Let_def)
  ultimately show ?thesis
    unfolding find_existing_None by blast
qed

theorem join_room_full_iff_witness:
  "handle_join_room ascii_methods ''sid9'' (Some ''room02'') (Some ''Ida'') full_state
       = Done [(To_sender, Error Room_full)] full_state
   \<and> handle_join_room ascii_methods ''sid9'' (Some ''room01'') (Some ''Ida'') demo_state
       \<noteq> Done [(To_sender, Error Room_full)] demo_state
   \<and> handle_join_room ascii_methods ''sid9'' (Some ''room02'') (Some ''Ida'')
         (full_state\<lparr>rooms := [''ROOM02'' \<mapsto> full_room\<lparr>game_ended := True\<rparr>]\<rparr>)
       = Done [(To_sender, Error Game_already_ended)]
           (full_state\<lparr>rooms := [''ROOM02'' \<mapsto> full_room\<lparr>game_ended := True\<rparr>]\<rparr>)"
proof -
  note ascii = ascii_methods_def ascii_lower_def ascii_upper_def ascii_space_def
  have n: "upper ascii_methods ''room02'' \<noteq> []" "upper ascii_methods ''room01'' \<noteq> []"
    "strip ascii_methods ''Ida'' \<noteq> []"
    by (simp_all add: ascii)
  have a: "rooms full_state (upper ascii_methods ''room02'') = Some full_room"
    "\<not> game_ended full_room"
    "\<forall>(s, p) \<in> set (players full_room).
        \<not> (lower ascii_methods (name p) = lower ascii_methods (strip ascii_methods ''Ida'')
           \<and> \<not> connected p)"
    "8 \<le> length (players full_room)"
    by (simp_all add: full_state_def full_room_def ascii)
  have b: "rooms demo_state (upper ascii_methods ''room01'') = Some demo_room"
    "\<not> game_ended demo_room"
    "\<forall>(s, p) \<in> set (players demo_room).
        \<not> (lower ascii_methods (name p) = lower ascii_methods (strip ascii_methods ''Ida'')
           \<and> \<not> connected p)"
    "\<not> 8 \<le> length (players demo_room)"
    by (simp_all add: demo_state_def demo_room_def ascii)
  have e: "rooms (full_state\<lparr>rooms := [''ROOM02'' \<mapsto> full_room\<lparr>game_ended := True\<rparr>]\<rparr>)
             (upper ascii_methods ''room02'') = Some (full_room\<lparr>game_ended := True\<rparr>)"
    "game_ended (full_room\<lparr>game_ended := True\<rparr>)"
    by (simp_all add: ascii)
  show ?thesis
    using join_room_full_iff [OF a(1) n(1,3), of "''sid9''"] a(2,3,4)
      join_room_full_iff [OF b(1) n(2,3), of "''sid9''"] b(2,3,4)
      join_room_full_iff [OF e(1) n(1,3), of "''sid9''"] e(2)
    by blast
qed

subsection \<open>Rejoining by name\<close>

text \<open>
  Claim C3 does not hold as stated: names are never made unique, and the rejoin loop
  stops at the first match. After the run \<open>two_ghosts_events\<close> the room holds two
  disconnected players, \<open>Bob\<close> with no point and, behind him, \<open>BOB\<close> with one point, who
  is in the buzz queue and is the current buzzer. A new connection joins as \<open>BOB\<close>. The
  entry transferred is Bob's: the new connection gets the name \<open>Bob\<close> and no point,
  while the entry of \<open>BOB\<close>, a disconnected player whose name matches the joining name,
  stays where it was, in the players, in the queue and as current buzzer.
\<close>

theorem rejoin_second_match_counterexample:
  "map_option (\<lambda>r. (players r, buzz_queue r, current_buzzer r))
     (room_after ascii_methods [demo_song] two_ghosts_events ''ROOM01'')
     = Some ([(''sidB'', \<lparr>name = ''Bob'', score = 0, connected = False\<rparr>),
              (''sidX'', \<lparr>name = ''BOB'', score = 1, connected = False\<rparr>)],
             [''sidX''], Some ''sidX'')
   \<and> map_option (\<lambda>r. (players r, buzz_queue r, current_buzzer r))
     (room_after ascii_methods [demo_song]
        (two_ghosts_events @ [Join_room ''sidN'' (Some ''ROOM01'') (Some ''BOB'')]) ''ROOM01'')
     = Some ([(''sidX'', \<lparr>name = ''BOB'', score = 1, connected = False\<rparr>),
              (''sidN'', \<lparr>name = ''Bob'', score = 0, connected = True\<rparr>)],
             [''sidX''], Some ''sidX'')"
  by (simp add: room_after_def two_ghosts_events_def demo_song_def initial_def
        handle_create_room_def new_room_def handle_join_room_def find_existing_def
        add_player_def transfer_session_def handle_start_game_def handle_start_round_def
        handle_buzz_def handle_judge_def handle_disconnect_def connected_players_def
        ascii_methods_def ascii_lower_def ascii_upper_def ascii_space_def Let_def)

text \<open>
  Claim C3, amended. Take a room that exists and whose game has not ended, and a join
  (a room code that is not empty in upper case, a name that is not empty once stripped),
  whatever the three string methods compute. Let a disconnected player's name equal the
  joining name up to case, and let no entry before it in the order of the players be
  such a player: it is the first match, and it is the only one when no other
  disconnected player's name matches. Let its identity be a non-empty string and the
  joining connection another one. Then the join succeeds and changes
  exactly this in the room: the player's entry is removed and stored under the new
  identity, connected, with name and score as they were; the new identity replaces the
  old one at every position of the buzz queue, as current buzzer when the old one was
  it, and in the lockout set when the old one was in it. After that the old identity is
  neither a key of the players, nor in the queue, nor the current buzzer, nor locked out.
\<close>

theorem rejoin_transfers_first_match:
  assumes "rooms st (upper lib c) = Some room" and "upper lib c \<noteq> []"
    and "strip lib n \<noteq> []" and "\<not> game_ended room"
    and "players room = before @ (old, pd) # rest"
    and "lower lib (name pd) = lower lib (strip lib n)" and "\<not> connected pd"
    and "\<forall>(s, p) \<in> set before.
           \<not> (lower lib (name p) = lower lib (strip lib n) \<and> \<not> connected p)"
    and "old \<noteq> []" and "sid \<noteq> old"
  shows "\<exists>evs room'.
           handle_join_room lib sid (Some c) (Some n) st
             = Done evs \<lparr>rooms = (rooms st)(upper lib c \<mapsto> room'),
                         player_sessions = (player_sessions st)(sid \<mapsto> upper lib c)\<rparr>
           \<and> room' =
               room\<lparr>players :=
                      AList.update sid (pd\<lparr>connected := True\<rparr>)
                        (AList.delete old (players room)),
                    buzz_queue := map (\<lambda>x. if x = old then sid else x) (buzz_queue room),
                    current_buzzer :=
                      (if current_buzzer room = Some old then Some sid
                       else current_buzzer room),
                    locked_out :=
                      (if old \<in> locked_out room then insert sid (locked_out room - {old})
                       else locked_out room)\<rparr>
           \<and> map_of (players room') sid = Some (pd\<lparr>connected := True\<rparr>)
           \<and> map_of (players room') old = None
           \<and> old \<notin> fst ` set (players room')
           \<and> old \<notin> set (buzz_queue room')
           \<and> current_buzzer room' \<noteq> Some old
           \<and> old \<notin> locked_out room'"
proof -
  have f: "find_existing lib (players room) (strip lib n) = Some (old, pd)"
    using assms(5-8) by (rule find_existing_first)
  note old = assms(9,10)
  let ?room' = "transfer_session room old pd sid"
  have j: "handle_join_room lib sid (Some c) (Some n) st
             = Done ([(To_sender, Joined_room (upper lib c) (strip lib n) (game_started ?room')),
                      (To_group (upper lib c), Player_joined (strip lib n))]
                     @ room_state_emits ((rooms st)(upper lib c \<mapsto> ?room')) (upper lib c))
                 \<lparr>rooms = (rooms st)(upper lib c \<mapsto> ?room'),
                  player_sessions = (player_sessions st)(sid \<mapsto> upper lib c)\<rparr>"
    using assms(1-4) f old(1) by (simp add: handle_join_room_def Let_def)
  have k: "old \<notin> fst ` set (players ?room')"
    using old(2) by (simp add: transfer_session_def AList.dom_update AList.delete_notin_dom)
  have k2: "map_of (players ?room') old = None"
    using old(2) by (simp add: transfer_session_def AList.update_conv' AList.delete_conv')
  have q: "old \<notin> set (buzz_queue ?room')" "current_buzzer ?room' \<noteq> Some old"
    "old \<notin> locked_out ?room'"
    using old(2) by (auto simp add: transfer_session_def)
  have m: "map_of (players ?room') sid = Some (pd\<lparr>connected := True\<rparr>)"
    by (simp add: transfer_session_def AList.update_conv')
  show ?thesis
    apply (rule exI, rule exI [of _ ?room'])
    using j k k2 q m
    by (simp add: transfer_session_def)
qed

theorem rejoin_transfers_first_match_witness:
  "map_option (\<lambda>r. (players r, buzz_queue r, current_buzzer r, locked_out r))
     (rooms (state_of (handle_join_room ascii_methods ''sidB2'' (Some ''room01'')
                         (Some '' bob '') demo_state))
        ''ROOM01'')
   = Some ([(''sidA'', \<lparr>name = ''Alice'', score = 3, connected = True\<rparr>),
            (''sidC'', \<lparr>name = ''Cleo'', score = 0, connected = True\<rparr>),
            (''sidB2'', \<lparr>name = ''Bob'', score = 1, connected = True\<rparr>)],
           [''sidB2'', ''sidA''], Some ''sidB2'', {})"
proof -
  note ascii = ascii_methods_def ascii_lower_def ascii_upper_def ascii_space_def
  let ?bob = "\<lparr>name = ''Bob'', score = 1, connected = False\<rparr>"
  have h: "rooms demo_state (upper ascii_methods ''room01'') = Some demo_room"
    "upper ascii_methods ''room01'' \<noteq> []"
    "strip ascii_methods '' bob '' \<noteq> []" "\<not> game_ended demo_room"
    "players demo_room
       = [(''sidA'', \<lparr>name = ''Alice'', score = 3, connected = True\<rparr>)]
         @ (''sidB'', ?bob) # [(''sidC'', \<lparr>name = ''Cleo'', score = 0, connected = True\<rparr>)]"
    "lower ascii_methods (name ?bob) = lower ascii_methods (strip ascii_methods '' bob '')"
    "\<not> connected ?bob"
    "\<forall>(s, p) \<in> set [(''sidA'', \<lparr>name = ''Alice'', score = 3, connected = True\<rparr>)].
        \<not> (lower ascii_methods (name p) = lower ascii_methods (strip ascii_methods '' bob '')
           \<and> \<not> connected p)"
    "''sidB'' \<noteq> []" "''sidB2'' \<noteq> ''sidB''"
    by (simp_all add: demo_state_def demo_room_def ascii)
  from rejoin_transfers_first_match [OF h]
  obtain evs room' where
    j: "handle_join_room ascii_methods ''sidB2'' (Some ''room01'') (Some '' bob '') demo_state
          = Done evs \<lparr>rooms = (rooms demo_state)(upper ascii_methods ''room01'' \<mapsto> room'),
              player_sessions =
                (player_sessions demo_state)(''sidB2'' \<mapsto> upper ascii_methods ''room01'')\<rparr>"
    and r: "room' =
               demo_room\<lparr>players :=
                      AList.update ''sidB2'' (?bob\<lparr>connected := True\<rparr>)
                        (AList.delete ''sidB'' (players demo_room)),
                    buzz_queue :=
                      map (\<lambda>x. if x = ''sidB'' then ''sidB2'' else x) (buzz_queue demo_room),
                    current_buzzer :=
                      (if current_buzzer demo_room = Some ''sidB'' then Some ''sidB2''
                       else current_buzzer demo_room),
                    locked_out :=
                      (if ''sidB'' \<in> locked_out demo_room
                       then insert ''sidB2'' (locked_out demo_room - {''sidB''})
                       else locked_out demo_room)\<rparr>"
    by blast
  show ?thesis
    by (simp only: j) (simp add: r demo_room_def ascii)
qed

subsection \<open>Judging in an ended game\<close>

text \<open>
  Claim C1 fails on the code for the judge event. \<open>handle_start_round\<close> returns when
  the game has ended, \<open>handle_judge\<close> has no such test, and \<open>handle_end_game\<close> leaves the
  current buzzer in place. In the run \<open>ended_game_events\<close> the host ends the game while
  Bob is the current buzzer: the game is over and Alice has won with one point. The judge
  event that follows is carried out: Bob gets two points, and the winner of the ended game
  changes from Alice to Bob.
\<close>

theorem judge_accepted_after_end_game:
  "map_option (\<lambda>r. (game_ended r, winner r, map (\<lambda>(s, p). (s, score p)) (players r),
                     current_buzzer r))
     (room_after ascii_methods [demo_song] ended_game_events ''ROOM01'')
     = Some (True, Some ''Alice'', [(''sidA'', 1), (''sidB'', 0)], Some ''sidB'')
   \<and> map_option (\<lambda>r. (game_ended r, winner r, map (\<lambda>(s, p). (s, score p)) (players r),
                     current_buzzer r))
     (room_after ascii_methods [demo_song]
        (ended_game_events @ [Judge ''host1'' (Some True) (Some True)]) ''ROOM01'')
     = Some (True, Some ''Bob'', [(''sidA'', 1), (''sidB'', 2)], None)"
  by (simp add: room_after_def ended_game_events_def demo_song_def initial_def
        handle_create_room_def new_room_def handle_join_room_def find_existing_def
        add_player_def handle_start_game_def handle_start_round_def handle_buzz_def
        handle_judge_def handle_end_game_def get_room_state_def connected_players_def
        ascii_methods_def ascii_lower_def ascii_upper_def ascii_space_def Let_def)

subsection \<open>The current buzzer is queued and not locked out\<close>






















end
